theory Spec2Isabelle
  imports Complex_Main
begin

section \<open>Python values\<close>

text \<open>
  The connector handles the values that \<^verbatim>\<open>response.json()\<close> returns: \<^verbatim>\<open>None\<close>, booleans,
  integers, floats, strings, lists and dictionaries with string keys. A finite float is the
  rational number it denotes; the JSON decoder of Python also produces infinities and NaN.
  A dictionary value is the list of its items in insertion order. Strings are lists of
  \<^typ>\<open>char\<close>, so the model covers the ASCII part of Python's \<^verbatim>\<open>str\<close>.
\<close>

datatype pyfloat = Finite rat | PosInf | NegInf | NaN

datatype pyval =
    PNone
  | PBool bool
  | PInt int
  | PFloat pyfloat
  | PStr string
  | PList "pyval list"
  | PDict "(string \<times> pyval) list"

text \<open>The exception classes that the body of the \<^verbatim>\<open>try\<close> block can raise. All of them
  derive from \<^verbatim>\<open>Exception\<close>.\<close>

datatype py_error =
    ConnectionError
  | HTTPError nat
  | JSONDecodeError
  | TypeError
  | ValueError
  | OverflowError
  | IndexError
  | KeyError

text \<open>Lists and dictionaries are unhashable: using one as a dictionary key, or looking one
  up in a dictionary, raises \<^verbatim>\<open>TypeError\<close>.\<close>

fun hashable :: "pyval \<Rightarrow> bool" where
  "hashable (PList xs) = False"
| "hashable (PDict kvs) = False"
| "hashable v = True"

text \<open>\<^verbatim>\<open>iter(v)\<close>: a list yields its elements, a string its characters (each a string of
  length one), a dictionary its keys; the other values are not iterable.\<close>

fun py_iter :: "pyval \<Rightarrow> py_error + pyval list" where
  "py_iter (PList xs) = Inr xs"
| "py_iter (PStr s) = Inr (map (\<lambda>c. PStr [c]) s)"
| "py_iter (PDict kvs) = Inr (map (\<lambda>kv. PStr (fst kv)) kvs)"
| "py_iter v = Inl TypeError"

subsection \<open>The built-in \<^verbatim>\<open>int\<close>\<close>

text \<open>The characters that \<^verbatim>\<open>int\<close> skips at both ends of an ASCII string: tab, line feed,
  vertical tab, form feed, carriage return and space.\<close>

definition is_space :: "char \<Rightarrow> bool" where
  "is_space c = (let n = (of_char c :: nat) in (9 \<le> n \<and> n \<le> 13) \<or> n = 32)"

definition is_digit :: "char \<Rightarrow> bool" where
  "is_digit c = (let n = (of_char c :: nat) in 48 \<le> n \<and> n \<le> 57)"

definition digit_val :: "char \<Rightarrow> nat" where
  "digit_val c = of_char c - 48"

text \<open>Decimal digits, where single underscores may separate digits. The function is called
  once a first digit has been read; \<open>acc\<close> is the value read so far.\<close>

fun digits_from :: "nat \<Rightarrow> string \<Rightarrow> nat option" where
  "digits_from acc [] = Some acc"
| "digits_from acc [c] = (if is_digit c then Some (10 * acc + digit_val c) else None)"
| "digits_from acc (c # d # cs) =
     (if is_digit c then digits_from (10 * acc + digit_val c) (d # cs)
      else if c = CHR ''_'' \<and> is_digit d then digits_from (10 * acc + digit_val d) cs
      else None)"

definition unsigned_literal :: "string \<Rightarrow> nat option" where
  "unsigned_literal s =
     (case s of [] \<Rightarrow> None
      | c # cs \<Rightarrow> if is_digit c then digits_from (digit_val c) cs else None)"

definition strip :: "string \<Rightarrow> string" where
  "strip s = rev (dropWhile is_space (rev (dropWhile is_space s)))"

definition int_of_str :: "string \<Rightarrow> int option" where
  "int_of_str s =
     (case strip s of
        [] \<Rightarrow> None
      | c # cs \<Rightarrow>
          if c = CHR ''-'' then map_option (\<lambda>n. - int n) (unsigned_literal cs)
          else if c = CHR ''+'' then map_option int (unsigned_literal cs)
          else map_option int (unsigned_literal (c # cs)))"

definition truncate :: "rat \<Rightarrow> int" where
  "truncate q = (if q < 0 then - \<lfloor>- q\<rfloor> else \<lfloor>q\<rfloor>)"

text \<open>\<^verbatim>\<open>int(v)\<close>. Python's limit on the number of digits of a string (4300 by default since
  3.11) is not part of the model.\<close>

fun py_int :: "pyval \<Rightarrow> py_error + int" where
  "py_int PNone = Inl TypeError"
| "py_int (PBool b) = Inr (if b then 1 else 0)"
| "py_int (PInt i) = Inr i"
| "py_int (PFloat (Finite q)) = Inr (truncate q)"
| "py_int (PFloat PosInf) = Inl OverflowError"
| "py_int (PFloat NegInf) = Inl OverflowError"
| "py_int (PFloat NaN) = Inl ValueError"
| "py_int (PStr s) = (case int_of_str s of None \<Rightarrow> Inl ValueError | Some i \<Rightarrow> Inr i)"
| "py_int (PList xs) = Inl TypeError"
| "py_int (PDict kvs) = Inl TypeError"

subsection \<open>Dictionaries\<close>

text \<open>
  A dictionary built or read by the connector is a map from values to values. Every lookup
  the connector makes either uses a string key or looks a value up among string keys, and a
  string equals no value of another type, so equality of \<^typ>\<open>pyval\<close> decides every lookup
  as Python's \<^verbatim>\<open>==\<close> does.
\<close>

type_synonym pydict = "pyval \<rightharpoonup> pyval"

text \<open>\<^verbatim>\<open>dict(pairs)\<close>: a later pair overwrites an earlier one with the same key; an unhashable
  key raises.\<close>

definition py_dict :: "(pyval \<times> pyval) list \<Rightarrow> py_error + pydict" where
  "py_dict kvs =
     (if list_all (\<lambda>kv. hashable (fst kv)) kvs then Inr (map_of (rev kvs)) else Inl TypeError)"

text \<open>\<^verbatim>\<open>d.get(k, default)\<close> for a hashable key.\<close>

definition dict_get :: "pydict \<Rightarrow> pyval \<Rightarrow> pyval \<Rightarrow> pyval" where
  "dict_get d k dflt = (case d k of None \<Rightarrow> dflt | Some v \<Rightarrow> v)"

section \<open>The connector\<close>

subsection \<open>Operations, log entries and the environment\<close>

text \<open>The \<^verbatim>\<open>data\<close> dictionary of an upsert.\<close>

record projection =
  year :: int
  race :: pyval
  sex :: pyval
  age :: int
  total_pop :: int
  last_updated :: string

type_synonym state = "string \<rightharpoonup> pyval"

datatype operation =
    Upsert string projection
  | Checkpoint state

type_synonym params = "(string \<times> string) list"

text \<open>One constructor for each logging call of \<^verbatim>\<open>update\<close>, carrying the values that the
  message is formatted from.\<close>

datatype log_entry =
    StartingSync
  | RequestingURL string
  | ReceivedRecords nat params
  | ErrorProcessing params py_error
  | TotalRecords nat

text \<open>What \<^verbatim>\<open>rq.get\<close> does: it raises, or it returns a response with a status code and a
  body, which \<^verbatim>\<open>response.json()\<close> decodes (\<open>None\<close> when the body is not JSON).\<close>

datatype http_outcome =
    NoResponse
  | Response nat "pyval option"

text \<open>The world outside the connector: the formatted result of \<^verbatim>\<open>datetime.utcnow()\<close> and
  the outcome of the \<open>n\<close>-th GET request of the run for a URL.\<close>

record env =
  utcnow :: string
  http :: "nat \<Rightarrow> string \<Rightarrow> http_outcome"

text \<open>The state of a run: the operations yielded so far, the log, the URLs requested and
  the counter \<^verbatim>\<open>total_records\<close>.\<close>

record run =
  emitted :: "operation list"
  logged :: "log_entry list"
  requested :: "string list"
  total_records :: nat

subsection \<open>Constants of \<^verbatim>\<open>update\<close>\<close>

definition api_key :: string where
  "api_key = ''ac259f7342449a3fcc5b1cfbed52e87e6adfde60''"

definition default_cursor :: string where
  "default_cursor = ''2000-01-01T00:00:00Z''"

definition demo_params :: "params list" where
  "demo_params =
    [[(''YEAR'', ''1''), (''ORIGIN'', ''1''), (''RACE'', ''1''), (''SEX'', ''1''), (''AGE'', ''1'')],
     [(''YEAR'', ''1''), (''ORIGIN'', ''1''), (''RACE'', ''2''), (''SEX'', ''1''), (''AGE'', ''1'')],
     [(''YEAR'', ''1''), (''ORIGIN'', ''1''), (''RACE'', ''3''), (''SEX'', ''1''), (''AGE'', ''1'')],
     [(''YEAR'', ''1''), (''ORIGIN'', ''1''), (''RACE'', ''4''), (''SEX'', ''1''), (''AGE'', ''1'')],
     [(''YEAR'', ''1''), (''ORIGIN'', ''1''), (''RACE'', ''5''), (''SEX'', ''1''), (''AGE'', ''1'')],
     [(''YEAR'', ''1''), (''ORIGIN'', ''1''), (''RACE'', ''6''), (''SEX'', ''1''), (''AGE'', ''1'')],
     [(''YEAR'', ''1''), (''ORIGIN'', ''2''), (''RACE'', ''1''), (''SEX'', ''1''), (''AGE'', ''1'')],
     [(''YEAR'', ''1''), (''ORIGIN'', ''2''), (''RACE'', ''2''), (''SEX'', ''1''), (''AGE'', ''1'')]]"

definition base_url :: string where
  "base_url = ''https://api.census.gov/data/2017/popproj/pop''"

definition query_params :: string where
  "query_params = ''?get=POP,YEAR,RACE,SEX,AGE&for=us:*&key='' @ api_key"

text \<open>The URL built in the loop body. The loop variable \<open>params\<close> is in scope, and the
  lines that would append it to the query string are commented out.\<close>

definition full_url :: "params \<Rightarrow> string" where
  "full_url params = base_url @ query_params"

definition race_map :: pydict where
  "race_map = map_of
    [(PStr ''1'', PStr ''White''), (PStr ''2'', PStr ''Black''), (PStr ''3'', PStr ''AIAN''),
     (PStr ''4'', PStr ''Asian''), (PStr ''5'', PStr ''NHPI''),
     (PStr ''6'', PStr ''Two or More Races'')]"

definition sex_map :: pydict where
  "sex_map = map_of [(PStr ''1'', PStr ''Male''), (PStr ''2'', PStr ''Female'')]"

subsection \<open>From a row to a record\<close>

text \<open>\<^verbatim>\<open>last_updated_cursor = state.get('last_updated', '2000-01-01T00:00:00Z')\<close>\<close>

definition last_updated_cursor :: "state \<Rightarrow> pyval" where
  "last_updated_cursor st =
     (case st ''last_updated'' of None \<Rightarrow> PStr default_cursor | Some v \<Rightarrow> v)"

text \<open>\<^verbatim>\<open>row_dict = dict(zip(headers, row))\<close>\<close>

definition row_dict_of :: "pyval \<Rightarrow> pyval \<Rightarrow> py_error + pydict" where
  "row_dict_of headers row =
     (case py_iter headers of
        Inl e \<Rightarrow> Inl e
      | Inr hs \<Rightarrow>
          (case py_iter row of
             Inl e \<Rightarrow> Inl e
           | Inr vs \<Rightarrow> py_dict (zip hs vs)))"

text \<open>\<^verbatim>\<open>race_str = race_map.get(race, race)\<close> and \<^verbatim>\<open>sex_str = sex_map.get(sex, sex)\<close>\<close>

definition race_str :: "pyval \<Rightarrow> py_error + pyval" where
  "race_str code = (if hashable code then Inr (dict_get race_map code code) else Inl TypeError)"

definition sex_str :: "pyval \<Rightarrow> py_error + pyval" where
  "sex_str code = (if hashable code then Inr (dict_get sex_map code code) else Inl TypeError)"

text \<open>The body of the loop over the rows, up to the argument of \<^verbatim>\<open>op.upsert\<close>. The
  conversions run in the order of the source, and the first one that raises ends the row.\<close>

definition make_record :: "string \<Rightarrow> pyval \<Rightarrow> pyval \<Rightarrow> py_error + projection" where
  "make_record current_time headers row =
     (case row_dict_of headers row of
        Inl e \<Rightarrow> Inl e
      | Inr row_dict \<Rightarrow>
     (case py_int (dict_get row_dict (PStr ''YEAR'') (PInt 0)) of
        Inl e \<Rightarrow> Inl e
      | Inr y \<Rightarrow>
     (case py_int (dict_get row_dict (PStr ''AGE'') (PInt 0)) of
        Inl e \<Rightarrow> Inl e
      | Inr a \<Rightarrow>
     (case py_int (dict_get row_dict (PStr ''POP'') (PInt 0)) of
        Inl e \<Rightarrow> Inl e
      | Inr pop \<Rightarrow>
     (case race_str (dict_get row_dict (PStr ''RACE'') (PStr '''')) of
        Inl e \<Rightarrow> Inl e
      | Inr rs \<Rightarrow>
     (case sex_str (dict_get row_dict (PStr ''SEX'') (PStr '''')) of
        Inl e \<Rightarrow> Inl e
      | Inr ss \<Rightarrow>
          Inr \<lparr>year = y, race = rs, sex = ss, age = a, total_pop = pop,
               last_updated = current_time\<rparr>))))))"

subsection \<open>The loops of \<^verbatim>\<open>update\<close>\<close>

text \<open>\<^verbatim>\<open>for row in rows\<close>: each row yields one upsert and increments the counter; a row
  that raises ends the loop, and the exception reaches the handler with everything yielded
  so far already delivered.\<close>

fun process_rows :: "string \<Rightarrow> pyval \<Rightarrow> pyval list \<Rightarrow> run \<Rightarrow> run \<times> py_error option" where
  "process_rows current_time headers [] s = (s, None)"
| "process_rows current_time headers (row # rows) s =
     (case make_record current_time headers row of
        Inl e \<Rightarrow> (s, Some e)
      | Inr r \<Rightarrow>
          process_rows current_time headers rows
            (s\<lparr>emitted := emitted s @ [Upsert ''population_projections'' r],
               total_records := total_records s + 1\<rparr>))"

text \<open>\<^verbatim>\<open>response.raise_for_status()\<close> followed by \<^verbatim>\<open>response.json()\<close>\<close>

fun response_json :: "http_outcome \<Rightarrow> py_error + pyval" where
  "response_json NoResponse = Inl ConnectionError"
| "response_json (Response status body) =
     (if 400 \<le> status \<and> status < 600 then Inl (HTTPError status)
      else case body of None \<Rightarrow> Inl JSONDecodeError | Some data \<Rightarrow> Inr data)"

text \<open>\<^verbatim>\<open>headers = data[0]\<close> and \<^verbatim>\<open>rows = data[1:]\<close>, the rows as the loop iterates them. A
  list and a string can be indexed and sliced; a dictionary decoded from JSON has no key
  \<open>0\<close>; the other values cannot be subscripted.\<close>

fun split_header :: "pyval \<Rightarrow> py_error + pyval \<times> pyval list" where
  "split_header (PList []) = Inl IndexError"
| "split_header (PList (h # rows)) = Inr (h, rows)"
| "split_header (PStr []) = Inl IndexError"
| "split_header (PStr (c # cs)) = Inr (PStr [c], map (\<lambda>c. PStr [c]) cs)"
| "split_header (PDict kvs) = Inl KeyError"
| "split_header v = Inl TypeError"

text \<open>The body of the \<^verbatim>\<open>try\<close> block from the response on.\<close>

definition process_response ::
  "string \<Rightarrow> params \<Rightarrow> http_outcome \<Rightarrow> run \<Rightarrow> run \<times> py_error option" where
  "process_response current_time params response s =
     (case response_json response of
        Inl e \<Rightarrow> (s, Some e)
      | Inr data \<Rightarrow>
          (case split_header data of
             Inl e \<Rightarrow> (s, Some e)
           | Inr (headers, rows) \<Rightarrow>
               process_rows current_time headers rows
                 (s\<lparr>logged := logged s @ [ReceivedRecords (length rows) params]\<rparr>)))"

text \<open>One iteration of \<^verbatim>\<open>for params in demo_params\<close>: the \<^verbatim>\<open>try\<close> block and its handler,
  which logs a warning and lets the loop continue.\<close>

definition process_params :: "env \<Rightarrow> params \<Rightarrow> run \<Rightarrow> run" where
  "process_params e params s =
     (let url = full_url params;
          s1 = s\<lparr>logged := logged s @ [RequestingURL url]\<rparr>;
          response = http e (length (requested s1)) url;
          s2 = s1\<lparr>requested := requested s1 @ [url]\<rparr>
      in case process_response (utcnow e) params response s2 of
           (s3, None) \<Rightarrow> s3
         | (s3, Some err) \<Rightarrow> s3\<lparr>logged := logged s3 @ [ErrorProcessing params err]\<rparr>)"

fun process_all :: "env \<Rightarrow> params list \<Rightarrow> run \<Rightarrow> run" where
  "process_all e [] s = s"
| "process_all e (params # rest) s = process_all e rest (process_params e params s)"

definition update :: "env \<Rightarrow> (string \<rightharpoonup> pyval) \<Rightarrow> state \<Rightarrow> run" where
  "update e configuration st =
     (let cursor = last_updated_cursor st;
          current_time = utcnow e;
          s0 = \<lparr>emitted = [], logged = [StartingSync], requested = [], total_records = 0\<rparr>;
          s1 = process_all e demo_params s0;
          s2 = s1\<lparr>logged := logged s1 @ [TotalRecords (total_records s1)]\<rparr>
      in s2\<lparr>emitted := emitted s2 @ [Checkpoint [''last_updated'' \<mapsto> PStr current_time]]\<rparr>)"

section \<open>Observing a run\<close>

text \<open>The records of the upserts among a list of operations, and the natural key of a
  record: the primary key that \<^verbatim>\<open>schema\<close> declares.\<close>

fun upserts_of :: "operation list \<Rightarrow> projection list" where
  "upserts_of [] = []"
| "upserts_of (Upsert table r # ops) = r # upserts_of ops"
| "upserts_of (Checkpoint st # ops) = upserts_of ops"

definition natural_key :: "projection \<Rightarrow> int \<times> pyval \<times> pyval \<times> int" where
  "natural_key r = (year r, race r, sex r, age r)"

definition empty_run :: run where
  "empty_run = \<lparr>emitted = [], logged = [], requested = [], total_records = 0\<rparr>"

text \<open>What one parameter set contributes, as a function of the outcome of its request: the
  records it yields and the exception that ends it, if any. Both are read off the \<^verbatim>\<open>try\<close>
  block run on its own.\<close>

definition records_of :: "string \<Rightarrow> params \<Rightarrow> http_outcome \<Rightarrow> projection list" where
  "records_of current_time params response =
     upserts_of (emitted (fst (process_response current_time params response empty_run)))"

definition failure_of :: "string \<Rightarrow> params \<Rightarrow> http_outcome \<Rightarrow> py_error option" where
  "failure_of current_time params response =
     snd (process_response current_time params response empty_run)"

text \<open>The outcome of the request that \<^verbatim>\<open>update\<close> makes for the \<open>n\<close>-th parameter set.\<close>

definition response_for :: "env \<Rightarrow> nat \<Rightarrow> http_outcome" where
  "response_for e n = http e n (full_url (demo_params ! n))"

definition succeeds :: "'e + 'a \<Rightarrow> bool" where
  "succeeds res = (case res of Inl e \<Rightarrow> False | Inr v \<Rightarrow> True)"

text \<open>The values that a row pairs with the headers \<^verbatim>\<open>YEAR\<close>, \<^verbatim>\<open>AGE\<close> and \<^verbatim>\<open>POP\<close> are
  accepted by \<^verbatim>\<open>int\<close> (a header that the row does not reach counts as accepted, its default
  being \<open>0\<close>).\<close>

definition ints_parse :: "pyval \<Rightarrow> pyval \<Rightarrow> bool" where
  "ints_parse headers row =
     (case row_dict_of headers row of
        Inl e \<Rightarrow> False
      | Inr d \<Rightarrow>
          succeeds (py_int (dict_get d (PStr ''YEAR'') (PInt 0))) \<and>
          succeeds (py_int (dict_get d (PStr ''AGE'') (PInt 0))) \<and>
          succeeds (py_int (dict_get d (PStr ''POP'') (PInt 0))))"

text \<open>A row converts when, moreover, its \<^verbatim>\<open>RACE\<close> and \<^verbatim>\<open>SEX\<close> values can be looked up in the
  code tables, that is, are neither lists nor dictionaries.\<close>

definition converts :: "pyval \<Rightarrow> pyval \<Rightarrow> bool" where
  "converts headers row =
     (case row_dict_of headers row of
        Inl e \<Rightarrow> False
      | Inr d \<Rightarrow>
          ints_parse headers row \<and>
          hashable (dict_get d (PStr ''RACE'') (PStr '''')) \<and>
          hashable (dict_get d (PStr ''SEX'') (PStr '''')))"

text \<open>The records and the exception of the loop over the rows, without the run state.\<close>

fun rows_result :: "string \<Rightarrow> pyval \<Rightarrow> pyval list \<Rightarrow> projection list \<times> py_error option" where
  "rows_result current_time headers [] = ([], None)"
| "rows_result current_time headers (row # rows) =
     (case make_record current_time headers row of
        Inl e \<Rightarrow> ([], Some e)
      | Inr r \<Rightarrow>
          (r # fst (rows_result current_time headers rows),
           snd (rows_result current_time headers rows)))"

definition response_result ::
  "string \<Rightarrow> http_outcome \<Rightarrow> projection list \<times> py_error option" where
  "response_result current_time response =
     (case response_json response of
        Inl e \<Rightarrow> ([], Some e)
      | Inr data \<Rightarrow>
          (case split_header data of
             Inl e \<Rightarrow> ([], Some e)
           | Inr (headers, rows) \<Rightarrow> rows_result current_time headers rows))"

section \<open>Example responses\<close>

text \<open>Inputs on which the definitions are evaluated below. The header row is the one that
  the API returns for the query string of \<^verbatim>\<open>update\<close>.\<close>

definition sample_time :: string where
  "sample_time = ''2024-01-01T00:00:00Z''"

definition sample_header :: pyval where
  "sample_header =
     PList [PStr ''POP'', PStr ''YEAR'', PStr ''RACE'', PStr ''SEX'', PStr ''AGE'', PStr ''us'']"

definition sample_row :: pyval where
  "sample_row =
     PList [PStr ''100'', PStr ''2017'', PStr ''2'', PStr ''1'', PStr ''0'', PStr ''1'']"

definition sample_row2 :: pyval where
  "sample_row2 =
     PList [PStr ''90'', PStr ''2017'', PStr ''9'', PStr ''2'', PStr ''1'', PStr ''1'']"

definition sample_body :: pyval where
  "sample_body = PList [sample_header, sample_row, sample_row2]"

definition sample_records :: "projection list" where
  "sample_records =
     [\<lparr>year = 2017, race = PStr ''Black'', sex = PStr ''Male'', age = 0, total_pop = 100,
       last_updated = sample_time\<rparr>,
      \<lparr>year = 2017, race = PStr ''9'', sex = PStr ''Female'', age = 1, total_pop = 90,
       last_updated = sample_time\<rparr>]"

text \<open>A body whose only data row has \<^verbatim>\<open>null\<close> for \<^verbatim>\<open>POP\<close>.\<close>

definition null_row :: pyval where
  "null_row = PList [PNone, PStr ''2017'', PStr ''1'', PStr ''1'', PStr ''0'', PStr ''1'']"

definition null_body :: pyval where
  "null_body = PList [sample_header, null_row]"

text \<open>A row that stops after \<^verbatim>\<open>YEAR\<close>, and a row that stops after \<^verbatim>\<open>RACE\<close> and has a
  list for it.\<close>

definition short_row :: pyval where
  "short_row = PList [PStr ''100'', PStr ''2017'']"

definition nested_row :: pyval where
  "nested_row = PList [PStr ''100'', PStr ''2017'', PList [PStr ''1'']]"

text \<open>Every request answered with the sample body; the first request answered with status
  500 and the others with the sample body; every request answered with the body that has
  the \<^verbatim>\<open>null\<close>; only the first request answered at all.\<close>

definition steady_http :: "nat \<Rightarrow> string \<Rightarrow> http_outcome" where
  "steady_http n url = Response 200 (Some sample_body)"

definition flaky_http :: "nat \<Rightarrow> string \<Rightarrow> http_outcome" where
  "flaky_http n url = (if n = 0 then Response 500 None else Response 200 (Some sample_body))"

definition null_http :: "nat \<Rightarrow> string \<Rightarrow> http_outcome" where
  "null_http n url = Response 200 (Some null_body)"

definition single_http :: "nat \<Rightarrow> string \<Rightarrow> http_outcome" where
  "single_http n url = (if n = 0 then Response 200 (Some sample_body) else NoResponse)"

definition steady_env :: env where
  "steady_env = \<lparr>utcnow = sample_time, http = steady_http\<rparr>"

definition flaky_env :: env where
  "flaky_env = \<lparr>utcnow = sample_time, http = flaky_http\<rparr>"

definition null_env :: env where
  "null_env = \<lparr>utcnow = sample_time, http = null_http\<rparr>"

definition single_env :: env where
  "single_env = \<lparr>utcnow = sample_time, http = single_http\<rparr>"

definition census_url :: string where
  "census_url = ''https://api.census.gov/data/2017/popproj/pop?get=POP,YEAR,RACE,SEX,AGE&for=us:*&key=ac259f7342449a3fcc5b1cfbed52e87e6adfde60''"

section \<open>The structure of a run\<close>

text \<open>The loops only ever append to what has been yielded, logged and requested; what one
  parameter set adds depends on the outcome of its own request alone.\<close>

lemma upserts_of_append: "upserts_of (xs @ ys) = upserts_of xs @ upserts_of ys"
  by (induction xs rule: upserts_of.induct) simp_all

lemma upserts_of_map_Upsert: "upserts_of (map (Upsert t) rs) = rs"
  by (induction rs) simp_all

lemma process_rows_eq:
  "process_rows now h rows s =
     (s\<lparr>emitted := emitted s @ map (Upsert ''population_projections'') (fst (rows_result now h rows)),
        total_records := total_records s + length (fst (rows_result now h rows))\<rparr>,
      snd (rows_result now h rows))"
proof (induction rows arbitrary: s)
  case Nil
  show ?case by simp
next
  case (Cons row rows)
  show ?case
  proof (cases "make_record now h row")
    case (Inl e)
    then show ?thesis by simp
  next
    case (Inr r)
    then show ?thesis by (simp add: Cons.IH)
  qed
qed

lemma process_response_eq:
  "process_response now p out s =
     (case response_json out of
        Inl e \<Rightarrow> (s, Some e)
      | Inr data \<Rightarrow>
          (case split_header data of
             Inl e \<Rightarrow> (s, Some e)
           | Inr (h, rows) \<Rightarrow>
               (s\<lparr>emitted := emitted s @ map (Upsert ''population_projections'') (fst (response_result now out)),
                  logged := logged s @ [ReceivedRecords (length rows) p],
                  total_records := total_records s + length (fst (response_result now out))\<rparr>,
                snd (response_result now out))))"
  by (simp add: process_response_def response_result_def process_rows_eq split: sum.splits prod.splits)

lemma emitted_process_response:
  "emitted (fst (process_response now p out s)) =
     emitted s @ map (Upsert ''population_projections'') (fst (response_result now out))"
  by (simp add: process_response_eq response_result_def split: sum.splits prod.splits)

lemma snd_process_response:
  "snd (process_response now p out s) = snd (response_result now out)"
  by (simp add: process_response_eq response_result_def split: sum.splits prod.splits)

lemma requested_process_response:
  "requested (fst (process_response now p out s)) = requested s"
  by (simp add: process_response_eq split: sum.splits prod.splits)

lemma total_process_response:
  "total_records (fst (process_response now p out s)) =
     total_records s + length (fst (response_result now out))"
  by (simp add: process_response_eq response_result_def split: sum.splits prod.splits)

lemma records_of_eq: "records_of now p out = fst (response_result now out)"
  by (simp add: records_of_def emitted_process_response empty_run_def upserts_of_map_Upsert)

lemma failure_of_eq: "failure_of now p out = snd (response_result now out)"
  by (simp add: failure_of_def snd_process_response)


lemma process_params_eq:
  "process_params e p s =
     (let out = http e (length (requested s)) (full_url p);
          res = response_result (utcnow e) out
      in s\<lparr>emitted := emitted s @ map (Upsert ''population_projections'') (fst res),
            logged := logged (process_params e p s),
            requested := requested s @ [full_url p],
            total_records := total_records s + length (fst res)\<rparr>)"
  by (simp add: process_params_def Let_def process_response_eq response_result_def
      split: sum.splits prod.splits option.splits)


lemma emitted_process_params:
  "emitted (process_params e p s) =
     emitted s @ map (Upsert ''population_projections'')
       (fst (response_result (utcnow e) (http e (length (requested s)) (full_url p))))"
  by (subst process_params_eq) (simp add: Let_def)

lemma requested_process_params:
  "requested (process_params e p s) = requested s @ [full_url p]"
  by (subst process_params_eq) (simp add: Let_def)

lemma total_process_params:
  "total_records (process_params e p s) =
     total_records s +
     length (fst (response_result (utcnow e) (http e (length (requested s)) (full_url p))))"
  by (subst process_params_eq) (simp add: Let_def)

lemma logged_process_params_mono:
  "set (logged s) \<subseteq> set (logged (process_params e p s))"
  by (auto simp add: process_params_def Let_def process_response_eq
      split: sum.splits prod.splits option.splits)

lemma logged_process_params_error:
  assumes "snd (response_result (utcnow e) (http e (length (requested s)) (full_url p))) = Some err"
  shows "ErrorProcessing p err \<in> set (logged (process_params e p s))"
  using assms
  by (auto simp add: process_params_def Let_def process_response_eq response_result_def
      split: sum.splits prod.splits option.splits)

lemma requested_process_all:
  "requested (process_all e ps s) = requested s @ map full_url ps"
  by (induction ps arbitrary: s) (simp_all add: requested_process_params)

lemma logged_process_all_mono:
  "set (logged s) \<subseteq> set (logged (process_all e ps s))"
proof (induction ps arbitrary: s)
  case Nil
  show ?case by simp
next
  case (Cons p ps)
  have "set (logged s) \<subseteq> set (logged (process_params e p s))"
    by (rule logged_process_params_mono)
  also have "\<dots> \<subseteq> set (logged (process_all e ps (process_params e p s)))"
    by (rule Cons.IH)
  finally show ?case by simp
qed

lemma emitted_process_all:
  "emitted (process_all e ps s) =
     emitted s @ concat (map (\<lambda>i. map (Upsert ''population_projections'')
       (fst (response_result (utcnow e) (http e (length (requested s) + i) (full_url (ps ! i))))))
       [0..<length ps])"
proof (induction ps arbitrary: s)
  case Nil
  show ?case by simp
next
  case (Cons p ps)
  show ?case
    by (simp add: Cons.IH emitted_process_params requested_process_params map_upt_Suc
        del: upt_Suc)
qed

lemma total_process_all:
  "total_records (process_all e ps s) =
     total_records s + length (upserts_of (emitted (process_all e ps s))) - length (upserts_of (emitted s))"
proof (induction ps arbitrary: s)
  case Nil
  show ?case by simp
next
  case (Cons p ps)
  show ?case
    by (simp add: Cons.IH total_process_params emitted_process_params emitted_process_all
        upserts_of_append upserts_of_map_Upsert)
qed

lemma logged_process_all_error:
  assumes "i < length ps"
    and "snd (response_result (utcnow e) (http e (length (requested s) + i) (full_url (ps ! i)))) = Some err"
  shows "ErrorProcessing (ps ! i) err \<in> set (logged (process_all e ps s))"
  using assms
proof (induction ps arbitrary: s i)
  case Nil
  then show ?case by simp
next
  case (Cons p ps)
  show ?case
  proof (cases i)
    case 0
    with Cons.prems have "ErrorProcessing p err \<in> set (logged (process_params e p s))"
      by (simp add: logged_process_params_error)
    with logged_process_all_mono [of "process_params e p s" e ps] 0 show ?thesis
      by auto
  next
    case (Suc j)
    with Cons.prems have "j < length ps"
      and "snd (response_result (utcnow e)
             (http e (length (requested (process_params e p s)) + j) (full_url (ps ! j)))) = Some err"
      by (simp_all add: requested_process_params)
    then have "ErrorProcessing (ps ! j) err \<in> set (logged (process_all e ps (process_params e p s)))"
      by (rule Cons.IH)
    with Suc show ?thesis by simp
  qed
qed

lemma length_demo_params: "length demo_params = 8"
  by (simp add: demo_params_def)

lemma emitted_update:
  "emitted (update e c st) =
     concat (map (\<lambda>n. map (Upsert ''population_projections'')
       (records_of (utcnow e) (demo_params ! n) (response_for e n))) [0..<8])
     @ [Checkpoint [''last_updated'' \<mapsto> PStr (utcnow e)]]"
  by (simp add: update_def Let_def emitted_process_all records_of_eq response_for_def
      length_demo_params del: upt_Suc)

lemma requested_update:
  "requested (update e c st) = map full_url demo_params"
  by (simp add: update_def Let_def requested_process_all)

lemma upserts_of_concat_map:
  "upserts_of (concat (map (\<lambda>n. map (Upsert t) (f n)) ns)) = concat (map f ns)"
  by (induction ns) (simp_all add: upserts_of_append upserts_of_map_Upsert)

lemma upserts_of_update:
  "upserts_of (emitted (update e c st)) =
     concat (map (\<lambda>n. records_of (utcnow e) (demo_params ! n) (response_for e n)) [0..<8])"
  by (simp add: emitted_update upserts_of_append upserts_of_concat_map del: upt_Suc)

lemma logged_update_error:
  assumes "n < 8" and "failure_of (utcnow e) (demo_params ! n) (response_for e n) = Some err"
  shows "ErrorProcessing (demo_params ! n) err \<in> set (logged (update e c st))"
proof -
  let ?s0 = "\<lparr>emitted = [], logged = [StartingSync], requested = [], total_records = 0\<rparr>"
  have "ErrorProcessing (demo_params ! n) err \<in> set (logged (process_all e demo_params ?s0))"
    using assms
    by (intro logged_process_all_error) (simp_all add: length_demo_params failure_of_eq response_for_def)
  then show ?thesis
    by (simp add: update_def Let_def)
qed

lemma total_records_update:
  "total_records (update e c st) = length (upserts_of (emitted (update e c st)))"
  by (simp add: update_def Let_def upserts_of_append total_process_all)

section \<open>Evaluating the examples\<close>

lemmas int_simps =
  int_of_str_def strip_def is_space_def unsigned_literal_def is_digit_def digit_val_def

lemmas record_simps =
  make_record_def row_dict_of_def py_dict_def dict_get_def race_str_def sex_str_def
  race_map_def sex_map_def

lemma upt_8: "[0..<8] = [0, 1, 2, 3, 4, 5, 6, 7]"
  by (simp add: upt_rec)

lemma response_result_sample:
  "response_result sample_time (Response 200 (Some sample_body)) = (sample_records, None)"
  by (simp add: response_result_def sample_body_def sample_row_def sample_row2_def
      sample_header_def sample_records_def record_simps int_simps)

lemma response_result_null:
  "response_result sample_time (Response 200 (Some null_body)) = ([], Some TypeError)"
  by (simp add: response_result_def null_body_def null_row_def sample_header_def
      record_simps int_simps)

lemma upserts_steady:
  "upserts_of (emitted (update steady_env Map.empty Map.empty)) =
     sample_records @ sample_records @ sample_records @ sample_records @
     sample_records @ sample_records @ sample_records @ sample_records"
  by (simp add: upserts_of_update upt_8 records_of_eq response_for_def steady_env_def
      steady_http_def response_result_sample)

section \<open>The request\<close>

lemma full_url_census: "full_url p = census_url"
  by (simp add: full_url_def base_url_def query_params_def api_key_def census_url_def)

lemma map_full_url: "map full_url ps = replicate (length ps) census_url"
  by (induction ps) (simp_all add: full_url_census)

text \<open>
  C5. The URL requested is the same fixed string for each of the 8 parameter sets: the run
  requests that URL eight times, and the URL built for any parameter set whatsoever is that
  string, so no value of \<^verbatim>\<open>demo_params\<close> reaches the query string.
\<close>

theorem update_requests_one_url:
  "requested (update e c st) = replicate 8 census_url
   \<and> length demo_params = 8
   \<and> map full_url demo_params = replicate 8 census_url
   \<and> full_url params = census_url"
  by (simp add: requested_update full_url_census map_full_url length_demo_params)

section \<open>The state and the timestamp\<close>

text \<open>
  C9. The input state does not influence the run: with the same responses and the same
  clock, two input states give the same operations, the same checkpoint, the same requests
  and the same log.
\<close>

theorem update_ignores_state:
  "update e c st = update e c st'"
  by (simp add: update_def Let_def)

lemma make_record_last_updated:
  "make_record now h row = Inr r \<Longrightarrow> last_updated r = now"
  by (auto simp add: make_record_def split: sum.splits)

lemma rows_result_last_updated:
  "r \<in> set (fst (rows_result now h rows)) \<Longrightarrow> last_updated r = now"
  by (induction rows) (auto split: sum.splits dest: make_record_last_updated)

lemma records_of_last_updated:
  "r \<in> set (records_of now p out) \<Longrightarrow> last_updated r = now"
  by (auto simp add: records_of_eq response_result_def split: sum.splits prod.splits
      dest: rows_result_last_updated)

text \<open>
  C8. Every upsert yielded by one call of \<^verbatim>\<open>update\<close> carries the same \<^verbatim>\<open>last_updated\<close>, the
  time read once at the start of the run, and the checkpoint that ends the run carries that
  value too.
\<close>

theorem update_one_timestamp:
  "(\<forall>r \<in> set (upserts_of (emitted (update e c st))). last_updated r = utcnow e)
   \<and> last (emitted (update e c st)) = Checkpoint [''last_updated'' \<mapsto> PStr (utcnow e)]"
proof
  show "\<forall>r \<in> set (upserts_of (emitted (update e c st))). last_updated r = utcnow e"
    by (auto simp add: upserts_of_update dest: records_of_last_updated simp del: upt_Suc)
  show "last (emitted (update e c st)) = Checkpoint [''last_updated'' \<mapsto> PStr (utcnow e)]"
    by (simp add: emitted_update del: upt_Suc)
qed

theorem update_one_timestamp_witness:
  "hd sample_records \<in> set (upserts_of (emitted (update steady_env Map.empty Map.empty)))
   \<and> last_updated (hd sample_records) = utcnow steady_env
   \<and> last (emitted (update steady_env Map.empty Map.empty)) =
       Checkpoint [''last_updated'' \<mapsto> PStr sample_time]"
proof -
  have mem: "hd sample_records \<in> set (upserts_of (emitted (update steady_env Map.empty Map.empty)))"
    by (simp add: upserts_steady sample_records_def)
  from update_one_timestamp [of steady_env Map.empty Map.empty] mem show ?thesis
    by (simp add: steady_env_def)
qed

lemma concat_map_Upsert:
  "concat (map (\<lambda>n. map (Upsert t) (f n)) ns) = map (Upsert t) (concat (map f ns))"
  by (induction ns) simp_all

text \<open>
  C4. A state without the key \<^verbatim>\<open>last_updated\<close> gives the cursor \<^verbatim>\<open>"2000-01-01T00:00:00Z"\<close>;
  and for every state and every outcome of the requests, the run ends with a checkpoint, the
  only one, whose \<^verbatim>\<open>last_updated\<close> is the current time of the run and not the cursor.
\<close>

theorem cursor_default_and_checkpoint:
  "(st ''last_updated'' = None \<longrightarrow> last_updated_cursor st = PStr ''2000-01-01T00:00:00Z'')
   \<and> (\<exists>rs. emitted (update e c st) =
         map (Upsert ''population_projections'') rs
         @ [Checkpoint [''last_updated'' \<mapsto> PStr (utcnow e)]])"
  by (auto simp add: last_updated_cursor_def default_cursor_def emitted_update
      concat_map_Upsert simp del: upt_Suc)

theorem cursor_default_and_checkpoint_witness:
  "Map.empty ''last_updated'' = (None :: pyval option)
   \<and> last_updated_cursor Map.empty = PStr ''2000-01-01T00:00:00Z''
   \<and> (\<exists>rs. emitted (update flaky_env Map.empty Map.empty) =
         map (Upsert ''population_projections'') rs
         @ [Checkpoint [''last_updated'' \<mapsto> PStr sample_time]])"
  using cursor_default_and_checkpoint [of Map.empty flaky_env Map.empty]
  by (simp add: flaky_env_def)

section \<open>The code tables\<close>

lemma make_record_codes:
  assumes "make_record now headers row = Inr r"
  shows "\<exists>d. row_dict_of headers row = Inr d
           \<and> race_str (dict_get d (PStr ''RACE'') (PStr '''')) = Inr (race r)
           \<and> sex_str (dict_get d (PStr ''SEX'') (PStr '''')) = Inr (sex r)"
  using assms by (auto simp add: make_record_def split: sum.splits)

lemma make_record_sample_row:
  "make_record sample_time sample_header sample_row = Inr (hd sample_records)"
  by (simp add: sample_header_def sample_row_def sample_records_def record_simps int_simps)

text \<open>
  C6. The race translation maps the string \<^verbatim>\<open>"1"\<close> to \<^verbatim>\<open>"White"\<close>, \<^verbatim>\<open>"2"\<close> to \<^verbatim>\<open>"Black"\<close>,
  \<^verbatim>\<open>"3"\<close> to \<^verbatim>\<open>"AIAN"\<close>, \<^verbatim>\<open>"4"\<close> to \<^verbatim>\<open>"Asian"\<close>, \<^verbatim>\<open>"5"\<close> to \<^verbatim>\<open>"NHPI"\<close> and \<^verbatim>\<open>"6"\<close> to
  \<^verbatim>\<open>"Two or More Races"\<close>; a code that is not in the table is left unchanged, as \<^verbatim>\<open>"9"\<close> is;
  and the race of every record emitted for a data row is the translation of the value that
  the row has for \<^verbatim>\<open>RACE\<close> (the empty string when it has none).
\<close>

theorem race_code_translation:
  "race_str (PStr ''1'') = Inr (PStr ''White'')
   \<and> race_str (PStr ''2'') = Inr (PStr ''Black'')
   \<and> race_str (PStr ''3'') = Inr (PStr ''AIAN'')
   \<and> race_str (PStr ''4'') = Inr (PStr ''Asian'')
   \<and> race_str (PStr ''5'') = Inr (PStr ''NHPI'')
   \<and> race_str (PStr ''6'') = Inr (PStr ''Two or More Races'')
   \<and> race_str (PStr ''9'') = Inr (PStr ''9'')
   \<and> (s \<notin> {''1'', ''2'', ''3'', ''4'', ''5'', ''6''} \<longrightarrow> race_str (PStr s) = Inr (PStr s))
   \<and> (make_record now headers row = Inr r \<longrightarrow>
        (\<exists>d. row_dict_of headers row = Inr d
           \<and> race_str (dict_get d (PStr ''RACE'') (PStr '''')) = Inr (race r)))"
proof -
  have "make_record now headers row = Inr r \<longrightarrow>
        (\<exists>d. row_dict_of headers row = Inr d
           \<and> race_str (dict_get d (PStr ''RACE'') (PStr '''')) = Inr (race r))"
    using make_record_codes by blast
  then show ?thesis
    by (simp add: race_str_def race_map_def dict_get_def)
qed

theorem race_code_translation_witness:
  "''7'' \<notin> {''1'', ''2'', ''3'', ''4'', ''5'', ''6''}
   \<and> race_str (PStr ''7'') = Inr (PStr ''7'')
   \<and> make_record sample_time sample_header sample_row = Inr (hd sample_records)
   \<and> race (hd sample_records) = PStr ''Black''
   \<and> (\<exists>d. row_dict_of sample_header sample_row = Inr d
       \<and> race_str (dict_get d (PStr ''RACE'') (PStr '''')) = Inr (PStr ''Black''))"
  using race_code_translation
      [of "''7''" sample_time sample_header sample_row "hd sample_records"]
    make_record_sample_row
  by (simp add: sample_records_def)

text \<open>
  C7. The sex translation maps the string \<^verbatim>\<open>"1"\<close> to \<^verbatim>\<open>"Male"\<close> and \<^verbatim>\<open>"2"\<close> to \<^verbatim>\<open>"Female"\<close>;
  any other code is left unchanged; and the sex of every record emitted for a data row is
  the translation of the value that the row has for \<^verbatim>\<open>SEX\<close> (the empty string when it has
  none).
\<close>

theorem sex_code_translation:
  "sex_str (PStr ''1'') = Inr (PStr ''Male'')
   \<and> sex_str (PStr ''2'') = Inr (PStr ''Female'')
   \<and> (s \<notin> {''1'', ''2''} \<longrightarrow> sex_str (PStr s) = Inr (PStr s))
   \<and> (make_record now headers row = Inr r \<longrightarrow>
        (\<exists>d. row_dict_of headers row = Inr d
           \<and> sex_str (dict_get d (PStr ''SEX'') (PStr '''')) = Inr (sex r)))"
proof -
  have "make_record now headers row = Inr r \<longrightarrow>
        (\<exists>d. row_dict_of headers row = Inr d
           \<and> sex_str (dict_get d (PStr ''SEX'') (PStr '''')) = Inr (sex r))"
    using make_record_codes by blast
  then show ?thesis
    by (simp add: sex_str_def sex_map_def dict_get_def)
qed

theorem sex_code_translation_witness:
  "''3'' \<notin> {''1'', ''2''}
   \<and> sex_str (PStr ''3'') = Inr (PStr ''3'')
   \<and> make_record sample_time sample_header sample_row = Inr (hd sample_records)
   \<and> sex (hd sample_records) = PStr ''Male''
   \<and> (\<exists>d. row_dict_of sample_header sample_row = Inr d
       \<and> sex_str (dict_get d (PStr ''SEX'') (PStr '''')) = Inr (PStr ''Male''))"
  using sex_code_translation
      [of "''3''" sample_time sample_header sample_row "hd sample_records"]
    make_record_sample_row
  by (simp add: sample_records_def)

text \<open>Values other than strings, such as numbers and \<^verbatim>\<open>None\<close>, are in neither table and
  pass unchanged too; a list or a dictionary cannot be looked up.\<close>

lemma code_not_in_table:
  "hashable code \<Longrightarrow> race_map code = None \<Longrightarrow> race_str code = Inr code"
  "hashable code \<Longrightarrow> sex_map code = None \<Longrightarrow> sex_str code = Inr code"
  "\<not> hashable code \<Longrightarrow> race_str code = Inl TypeError"
  "\<not> hashable code \<Longrightarrow> sex_str code = Inl TypeError"
  by (simp_all add: race_str_def sex_str_def dict_get_def)

section \<open>Failures of a parameter set\<close>

lemma response_result_500:
  "response_result now (Response 500 body) = ([], Some (HTTPError 500))"
  by (simp add: response_result_def)

lemma response_result_NoResponse:
  "response_result now NoResponse = ([], Some ConnectionError)"
  by (simp add: response_result_def)

lemma failure_flaky:
  "failure_of sample_time (demo_params ! 0) (response_for flaky_env 0) = Some (HTTPError 500)"
  by (simp add: failure_of_eq response_result_500 response_for_def flaky_env_def flaky_http_def)

lemma upserts_flaky:
  "upserts_of (emitted (update flaky_env Map.empty Map.empty)) =
     sample_records @ sample_records @ sample_records @ sample_records @
     sample_records @ sample_records @ sample_records"
  by (simp add: upserts_of_update upt_8 records_of_eq response_for_def flaky_env_def
      flaky_http_def response_result_sample response_result_500)

text \<open>
  C3. When the request or the parsing for one parameter set raises (a failed connection, an
  HTTP error status, a body that is not JSON or not of the expected shape, a row that does
  not convert), the exception is caught and logged as a warning for that parameter set; the
  operations of the run are still the upserts of every parameter set, each determined by its
  own response, followed by the checkpoint. The run has no failure path: \<^verbatim>\<open>update\<close> is a total
  function of the clock and the responses.
\<close>

theorem update_survives_failure:
  assumes "n < 8"
    and "failure_of (utcnow e) (demo_params ! n) (response_for e n) = Some err"
  shows "ErrorProcessing (demo_params ! n) err \<in> set (logged (update e c st))
    \<and> emitted (update e c st) =
        concat (map (\<lambda>m. map (Upsert ''population_projections'')
          (records_of (utcnow e) (demo_params ! m) (response_for e m))) [0..<8])
        @ [Checkpoint [''last_updated'' \<mapsto> PStr (utcnow e)]]"
  using assms by (simp add: logged_update_error emitted_update del: upt_Suc)

theorem update_survives_failure_witness:
  "(0::nat) < 8
   \<and> failure_of (utcnow flaky_env) (demo_params ! 0) (response_for flaky_env 0) =
       Some (HTTPError 500)
   \<and> ErrorProcessing (demo_params ! 0) (HTTPError 500)
       \<in> set (logged (update flaky_env Map.empty Map.empty))
   \<and> upserts_of (emitted (update flaky_env Map.empty Map.empty)) =
       sample_records @ sample_records @ sample_records @ sample_records @
       sample_records @ sample_records @ sample_records
   \<and> last (emitted (update flaky_env Map.empty Map.empty)) =
       Checkpoint [''last_updated'' \<mapsto> PStr sample_time]"
proof -
  have f: "failure_of (utcnow flaky_env) (demo_params ! 0) (response_for flaky_env 0) =
      Some (HTTPError 500)"
    using failure_flaky by (simp add: flaky_env_def)
  from update_survives_failure [of 0 flaky_env "HTTPError 500" Map.empty Map.empty, OF _ f]
  show ?thesis
    using f upserts_flaky by (simp add: flaky_env_def del: upt_Suc)
qed

section \<open>Rows that convert\<close>

lemma make_record_converts:
  assumes "converts headers row"
  shows "\<exists>r. make_record now headers row = Inr r"
  using assms
  by (auto simp add: converts_def ints_parse_def succeeds_def make_record_def race_str_def
      sex_str_def split: sum.splits)

lemma rows_result_converts:
  assumes "\<forall>row \<in> set rows. converts headers row"
  shows "length (fst (rows_result now headers rows)) = length rows"
  using assms
proof (induction rows)
  case Nil
  show ?case by simp
next
  case (Cons row rows)
  from Cons.prems obtain r where "make_record now headers row = Inr r"
    using make_record_converts [of headers row now] by auto
  with Cons show ?case by simp
qed

text \<open>In general a parameter set yields one record for each row before the first row that
  raises, so never more than there are data rows.\<close>

lemma rows_result_length_le:
  "length (fst (rows_result now headers rows)) \<le> length rows"
  by (induction rows) (auto split: sum.splits)

lemma converts_sample:
  "converts sample_header sample_row"
  "converts sample_header sample_row2"
  by (simp_all add: converts_def ints_parse_def succeeds_def sample_header_def sample_row_def
      sample_row2_def row_dict_of_def py_dict_def dict_get_def int_simps)

text \<open>
  C2, as amended. For a parameter set whose request succeeds and returns a JSON array whose
  first element is the header row, if every data row converts (the headers paired with its
  values are hashable, its \<^verbatim>\<open>YEAR\<close>, \<^verbatim>\<open>AGE\<close> and \<^verbatim>\<open>POP\<close> values are accepted by \<^verbatim>\<open>int\<close>, and
  its \<^verbatim>\<open>RACE\<close> and \<^verbatim>\<open>SEX\<close> values are hashable), then the number of upserts yielded for that
  parameter set is the length of the array minus one.
\<close>

theorem process_params_record_count:
  assumes "http e (length (requested s)) (full_url p) =
             Response status (Some (PList (headers # rows)))"
    and "status < 400 \<or> 600 \<le> status"
    and "\<forall>row \<in> set rows. converts headers row"
  shows "length (upserts_of (emitted (process_params e p s))) =
           length (upserts_of (emitted s)) + (length (headers # rows) - 1)"
  using assms
  by (auto simp add: emitted_process_params upserts_of_append upserts_of_map_Upsert
      response_result_def rows_result_converts)

theorem process_params_record_count_witness:
  "http steady_env (length (requested empty_run)) (full_url (demo_params ! 0)) =
     Response 200 (Some (PList [sample_header, sample_row, sample_row2]))
   \<and> converts sample_header sample_row
   \<and> converts sample_header sample_row2
   \<and> length (upserts_of (emitted (process_params steady_env (demo_params ! 0) empty_run))) = 2"
proof -
  have h: "http steady_env (length (requested empty_run)) (full_url (demo_params ! 0)) =
     Response 200 (Some (PList (sample_header # [sample_row, sample_row2])))"
    by (simp add: steady_env_def steady_http_def sample_body_def)
  have c: "\<forall>row \<in> set [sample_row, sample_row2]. converts sample_header row"
    by (simp add: converts_sample)
  from process_params_record_count [OF h _ c] h converts_sample show ?thesis
    by (simp add: empty_run_def)
qed

text \<open>The claim as stated fails on an array of arrays whose data row has \<^verbatim>\<open>null\<close> for
  \<^verbatim>\<open>POP\<close>: \<^verbatim>\<open>int(None)\<close> raises, the handler ends the parameter set, and no upsert is yielded
  for an array of length two.\<close>

theorem process_params_record_count_counterexample:
  "http null_env (length (requested empty_run)) (full_url (demo_params ! 0)) =
     Response 200 (Some (PList [sample_header, null_row]))
   \<and> length (upserts_of (emitted (process_params null_env (demo_params ! 0) empty_run))) = 0
   \<and> length [sample_header, null_row] - 1 = (1::nat)"
  by (simp add: emitted_process_params null_env_def null_http_def empty_run_def
      response_result_null [unfolded null_body_def] null_body_def)

section \<open>Short rows\<close>

lemma dom_map_of_rev_zip:
  "dom (map_of (rev (zip hs vs))) = set (take (length vs) hs)"
proof -
  have "map fst (zip hs vs) = take (length vs) hs"
    by (simp add: map_fst_zip_take min_def)
  then have "fst ` set (zip hs vs) = set (take (length vs) hs)"
    by (metis set_map)
  then show ?thesis
    by (simp add: dom_map_of_conv_image_fst)
qed

lemma row_dict_of_iter:
  assumes "row_dict_of headers row = Inr d"
    and "py_iter headers = Inr hs" and "py_iter row = Inr vs"
  shows "d = map_of (rev (zip hs vs))"
  using assms by (simp add: row_dict_of_def py_dict_def split: if_splits)

lemma make_record_Inr:
  assumes "make_record now headers row = Inr r"
  shows "\<exists>d y a p. row_dict_of headers row = Inr d
    \<and> py_int (dict_get d (PStr ''YEAR'') (PInt 0)) = Inr y
    \<and> py_int (dict_get d (PStr ''AGE'') (PInt 0)) = Inr a
    \<and> py_int (dict_get d (PStr ''POP'') (PInt 0)) = Inr p
    \<and> race_str (dict_get d (PStr ''RACE'') (PStr '''')) = Inr (race r)
    \<and> sex_str (dict_get d (PStr ''SEX'') (PStr '''')) = Inr (sex r)
    \<and> year r = y \<and> age r = a \<and> total_pop r = p \<and> last_updated r = now"
  using assms by (auto simp add: make_record_def split: sum.splits)

lemma race_str_empty: "race_str (PStr '''') = Inr (PStr '''')"
  by (simp add: race_str_def dict_get_def race_map_def)

lemma sex_str_empty: "sex_str (PStr '''') = Inr (PStr '''')"
  by (simp add: sex_str_def dict_get_def sex_map_def)

lemma dict_get_None: "d k = None \<Longrightarrow> dict_get d k dflt = dflt"
  by (simp add: dict_get_def)

lemma make_record_defaults:
  assumes "make_record now headers row = Inr r" and "row_dict_of headers row = Inr d"
  shows "(d (PStr ''YEAR'') = None \<longrightarrow> year r = 0)
    \<and> (d (PStr ''AGE'') = None \<longrightarrow> age r = 0)
    \<and> (d (PStr ''POP'') = None \<longrightarrow> total_pop r = 0)
    \<and> (d (PStr ''RACE'') = None \<longrightarrow> race r = PStr '''')
    \<and> (d (PStr ''SEX'') = None \<longrightarrow> sex r = PStr '''')"
proof -
  from make_record_Inr [OF assms(1)] assms(2) obtain y a p where
    y: "py_int (dict_get d (PStr ''YEAR'') (PInt 0)) = Inr y" and
    a: "py_int (dict_get d (PStr ''AGE'') (PInt 0)) = Inr a" and
    p: "py_int (dict_get d (PStr ''POP'') (PInt 0)) = Inr p" and
    rc: "race_str (dict_get d (PStr ''RACE'') (PStr '''')) = Inr (race r)" and
    sx: "sex_str (dict_get d (PStr ''SEX'') (PStr '''')) = Inr (sex r)" and
    r: "year r = y" "age r = a" "total_pop r = p"
    by auto
  have "d (PStr ''YEAR'') = None \<longrightarrow> year r = 0"
    using y r by (auto simp add: dict_get_None)
  moreover have "d (PStr ''AGE'') = None \<longrightarrow> age r = 0"
    using a r by (auto simp add: dict_get_None)
  moreover have "d (PStr ''POP'') = None \<longrightarrow> total_pop r = 0"
    using p r by (auto simp add: dict_get_None)
  moreover have "d (PStr ''RACE'') = None \<longrightarrow> race r = PStr ''''"
    using rc by (auto simp add: dict_get_None race_str_empty)
  moreover have "d (PStr ''SEX'') = None \<longrightarrow> sex r = PStr ''''"
    using sx by (auto simp add: dict_get_None sex_str_empty)
  ultimately show ?thesis by blast
qed

lemma converts_short_row: "converts sample_header short_row"
  by (simp add: converts_def ints_parse_def succeeds_def sample_header_def short_row_def
      row_dict_of_def py_dict_def dict_get_def int_simps)

lemma make_record_short_row:
  "make_record sample_time sample_header short_row =
     Inr \<lparr>year = 2017, race = PStr '''', sex = PStr '''', age = 0, total_pop = 100,
          last_updated = sample_time\<rparr>"
  by (simp add: sample_header_def short_row_def record_simps int_simps)

text \<open>
  C10, as amended. For every data row that converts (the headers paired with its values are
  hashable, its \<^verbatim>\<open>YEAR\<close>, \<^verbatim>\<open>AGE\<close> and \<^verbatim>\<open>POP\<close> values are accepted by \<^verbatim>\<open>int\<close>, and its
  \<^verbatim>\<open>RACE\<close> and \<^verbatim>\<open>SEX\<close> values are hashable), a record is emitted and no error raised. The
  keys of the mapping are the headers that the row reaches, the headers beyond the length of
  the row being dropped; a header absent from the mapping takes its default: \<open>0\<close> for year,
  age and total_pop, the empty string for race and sex.
\<close>

theorem short_row_defaults:
  assumes "converts headers row"
    and "py_iter headers = Inr hs" and "py_iter row = Inr vs"
  shows "\<exists>d r. row_dict_of headers row = Inr d
           \<and> dom d = set (take (length vs) hs)
           \<and> make_record now headers row = Inr r
           \<and> (PStr ''YEAR'' \<notin> set (take (length vs) hs) \<longrightarrow> year r = 0)
           \<and> (PStr ''AGE'' \<notin> set (take (length vs) hs) \<longrightarrow> age r = 0)
           \<and> (PStr ''POP'' \<notin> set (take (length vs) hs) \<longrightarrow> total_pop r = 0)
           \<and> (PStr ''RACE'' \<notin> set (take (length vs) hs) \<longrightarrow> race r = PStr '''')
           \<and> (PStr ''SEX'' \<notin> set (take (length vs) hs) \<longrightarrow> sex r = PStr '''')"
proof -
  from assms(1) obtain d where d: "row_dict_of headers row = Inr d"
    by (auto simp add: converts_def split: sum.splits)
  from row_dict_of_iter [OF d assms(2,3)] have dom: "dom d = set (take (length vs) hs)"
    by (simp add: dom_map_of_rev_zip)
  have none: "d k = None" if "k \<notin> set (take (length vs) hs)" for k
    using that dom by blast
  from assms(1) obtain r where r: "make_record now headers row = Inr r"
    using make_record_converts by blast
  from make_record_defaults [OF r d]
  have "(PStr ''YEAR'' \<notin> set (take (length vs) hs) \<longrightarrow> year r = 0)
      \<and> (PStr ''AGE'' \<notin> set (take (length vs) hs) \<longrightarrow> age r = 0)
      \<and> (PStr ''POP'' \<notin> set (take (length vs) hs) \<longrightarrow> total_pop r = 0)
      \<and> (PStr ''RACE'' \<notin> set (take (length vs) hs) \<longrightarrow> race r = PStr '''')
      \<and> (PStr ''SEX'' \<notin> set (take (length vs) hs) \<longrightarrow> sex r = PStr '''')"
    by (simp add: none)
  with d dom r show ?thesis by blast
qed

theorem short_row_defaults_witness:
  "converts sample_header short_row
   \<and> py_iter sample_header =
       Inr [PStr ''POP'', PStr ''YEAR'', PStr ''RACE'', PStr ''SEX'', PStr ''AGE'', PStr ''us'']
   \<and> py_iter short_row = Inr [PStr ''100'', PStr ''2017'']
   \<and> (\<exists>r. make_record sample_time sample_header short_row = Inr r
          \<and> year r = 2017 \<and> total_pop r = 100
          \<and> age r = 0 \<and> race r = PStr '''' \<and> sex r = PStr '''')"
proof -
  let ?hs = "[PStr ''POP'', PStr ''YEAR'', PStr ''RACE'', PStr ''SEX'', PStr ''AGE'', PStr ''us'']"
  let ?vs = "[PStr ''100'', PStr ''2017'']"
  have hs: "py_iter sample_header = Inr ?hs"
    by (simp add: sample_header_def)
  have vs: "py_iter short_row = Inr ?vs"
    by (simp add: short_row_def)
  from short_row_defaults [OF converts_short_row hs vs, of sample_time]
  obtain r where r: "make_record sample_time sample_header short_row = Inr r"
    and a: "PStr ''AGE'' \<notin> set (take (length ?vs) ?hs) \<longrightarrow> age r = 0"
    and rc: "PStr ''RACE'' \<notin> set (take (length ?vs) ?hs) \<longrightarrow> race r = PStr ''''"
    and sx: "PStr ''SEX'' \<notin> set (take (length ?vs) ?hs) \<longrightarrow> sex r = PStr ''''"
    by blast
  from a have a0: "age r = 0" by simp
  from rc have rc0: "race r = PStr ''''" by simp
  from sx have sx0: "sex r = PStr ''''" by simp
  from r make_record_short_row have yp: "year r = 2017" "total_pop r = 100"
    by auto
  from r a0 rc0 sx0 yp
  have "\<exists>r. make_record sample_time sample_header short_row = Inr r
          \<and> year r = 2017 \<and> total_pop r = 100
          \<and> age r = 0 \<and> race r = PStr '''' \<and> sex r = PStr ''''"
    by blast
  with converts_short_row hs vs show ?thesis
    by blast
qed

text \<open>The claim as stated fails on a row whose \<^verbatim>\<open>RACE\<close> value is a list: the row is
  shorter than the header row, its \<^verbatim>\<open>POP\<close> and \<^verbatim>\<open>YEAR\<close> values parse and it has no \<^verbatim>\<open>AGE\<close>
  value, and the lookup in the race table raises \<^verbatim>\<open>TypeError\<close>.\<close>

theorem short_row_defaults_counterexample:
  "py_iter sample_header =
     Inr [PStr ''POP'', PStr ''YEAR'', PStr ''RACE'', PStr ''SEX'', PStr ''AGE'', PStr ''us'']
   \<and> py_iter nested_row = Inr [PStr ''100'', PStr ''2017'', PList [PStr ''1'']]
   \<and> ints_parse sample_header nested_row
   \<and> make_record sample_time sample_header nested_row = Inl TypeError"
  by (simp add: sample_header_def nested_row_def ints_parse_def succeeds_def
      record_simps int_simps)

section \<open>The natural key\<close>

lemma concat_upt_not_distinct:
  assumes "n < m" and "m < k" and "x \<in> set (g n)" and "x \<in> set (g m)"
  shows "\<not> distinct (concat (map g [0..<k]))"
proof
  assume d: "distinct (concat (map g [0..<k]))"
  from assms(2) have "[0..<k] = [0..<m] @ m # [Suc m..<k]"
    using upt_add_eq_append [of 0 m "k - m"] upt_conv_Cons [of m k] by simp
  then have "concat (map g [0..<k]) =
      concat (map g [0..<m]) @ g m @ concat (map g [Suc m..<k])"
    by simp
  with d have "set (concat (map g [0..<m])) \<inter> set (g m) = {}"
    by auto
  moreover from assms(1,3) have "x \<in> set (concat (map g [0..<m]))"
    by auto
  ultimately show False
    using assms(4) by blast
qed

lemma map_concat_map:
  "map h (concat (map f ns)) = concat (map (\<lambda>n. map h (f n)) ns)"
  by (induction ns) simp_all

text \<open>The loop sends the same request for every parameter set. Whenever two of the eight
  requests get the same answer and that answer yields a record, the run yields that record
  twice, and the tuples (year, race, sex, age) of its upserts are not distinct.\<close>

lemma repeated_response_repeats_keys:
  assumes nm: "n < m" and m8: "m < 8"
    and same: "response_for e n = response_for e m"
    and some: "records_of (utcnow e) (demo_params ! n) (response_for e n) \<noteq> []"
  shows "\<not> distinct (map natural_key (upserts_of (emitted (update e c st))))"
proof -
  let ?g = "\<lambda>k. map natural_key (records_of (utcnow e) (demo_params ! k) (response_for e k))"
  from same have eq: "?g m = ?g n"
    by (simp add: records_of_eq)
  from some have "?g n \<noteq> []"
    by simp
  then have kn: "hd (?g n) \<in> set (?g n)"
    by (rule hd_in_set)
  with eq have km: "hd (?g n) \<in> set (?g m)"
    by simp
  have "\<not> distinct (concat (map ?g [0..<8]))"
    by (rule concat_upt_not_distinct [OF nm m8 kn km])
  then show ?thesis
    by (simp add: upserts_of_update map_concat_map del: upt_Suc)
qed

text \<open>
  C1. Within a single run of \<^verbatim>\<open>update\<close>, (year, race, sex, age) is meant to be a natural key
  of the emitted records: the schema declares it as the primary key, and the loop is
  written to query a different demographic breakdown for each parameter set. The code does
  not keep the invariant. The lines that would add the parameter set to the query string are
  commented out, so the eight requests are one and the same; on the run in which each of
  them is answered with the sample body, whose two rows have different tuples, every record
  is yielded eight times and the tuples of the upserts are not pairwise distinct.
\<close>

theorem steady_run_repeats_keys:
  "requested (update steady_env Map.empty Map.empty) = replicate 8 census_url
   \<and> distinct (map natural_key sample_records)
   \<and> upserts_of (emitted (update steady_env Map.empty Map.empty)) =
       sample_records @ sample_records @ sample_records @ sample_records @
       sample_records @ sample_records @ sample_records @ sample_records
   \<and> \<not> distinct (map natural_key
         (upserts_of (emitted (update steady_env Map.empty Map.empty))))"
proof (intro conjI)
  show "requested (update steady_env Map.empty Map.empty) = replicate 8 census_url"
    by (simp add: requested_update map_full_url length_demo_params)
  show "distinct (map natural_key sample_records)"
    by (simp add: sample_records_def natural_key_def)
  show "upserts_of (emitted (update steady_env Map.empty Map.empty)) =
       sample_records @ sample_records @ sample_records @ sample_records @
       sample_records @ sample_records @ sample_records @ sample_records"
    by (rule upserts_steady)
  show "\<not> distinct (map natural_key
         (upserts_of (emitted (update steady_env Map.empty Map.empty))))"
    by (simp add: upserts_steady sample_records_def natural_key_def)
qed

text \<open>When only one request is answered and the rows of its body have distinct tuples, the
  tuples of the run are distinct: the duplicates above come from the repeated request, not
  from the data.\<close>

lemma upserts_single:
  "upserts_of (emitted (update single_env Map.empty Map.empty)) = sample_records"
  by (simp add: upserts_of_update upt_8 records_of_eq response_for_def single_env_def
      single_http_def response_result_sample response_result_NoResponse)

lemma keys_single_distinct:
  "distinct (map natural_key (upserts_of (emitted (update single_env Map.empty Map.empty))))"
  by (simp add: upserts_single sample_records_def natural_key_def)

end
